theory Spec2Isabelle
  imports Complex_Main
begin

section \<open>Data model (data/models.py)\<close>

datatype BodyPart =
  LEFT_SHOULDER | RIGHT_SHOULDER | LEFT_CALF | LOWER_BACK
  | NECK | RIGHT_CALF | UPPER_BACK | HIPS

datatype InjurySeverity = MILD | MODERATE | SEVERE

datatype WorkoutPhase = FOUNDATION | BUILDING | INTEGRATION | MASTERY

text \<open>The \<^verbatim>\<open>.value\<close> of a severity, as interpolated into restriction strings.\<close>

fun severity_value :: "InjurySeverity \<Rightarrow> string" where
  "severity_value MILD = ''mild''"
| "severity_value MODERATE = ''moderate''"
| "severity_value SEVERE = ''severe''"

text \<open>
  Every raise of the modelled code is a \<^verbatim>\<open>KeyError\<close> of a dictionary subscript;
  \<^verbatim>\<open>ValidationError\<close> is the coordinator's rejection of out-of-range feedback.
\<close>

datatype error = KeyError | ValidationError

text \<open>
  An injury profile is a Python dict iterated in insertion order: an association list.
\<close>

type_synonym injuries = "(BodyPart \<times> InjurySeverity) list"

section \<open>Strings\<close>

text \<open>\<^verbatim>\<open>s.startswith(p)\<close>, and Python's substring test \<^verbatim>\<open>sub in s\<close>.\<close>

fun starts_with :: "string \<Rightarrow> string \<Rightarrow> bool" where
  "starts_with s [] = True"
| "starts_with [] (p # ps) = False"
| "starts_with (c # cs) (p # ps) = (c = p \<and> starts_with cs ps)"

fun str_in :: "string \<Rightarrow> string \<Rightarrow> bool" where
  "str_in sub [] = (sub = [])"
| "str_in sub (c # cs) = (starts_with (c # cs) sub \<or> str_in sub cs)"

text \<open>\<^verbatim>\<open>str.lower()\<close> on ASCII text: the letters A to Z move to a to z.\<close>

definition lower_char :: "char \<Rightarrow> char" where
  "lower_char c =
     (case map_of (zip ''ABCDEFGHIJKLMNOPQRSTUVWXYZ'' ''abcdefghijklmnopqrstuvwxyz'') c of
        Some l \<Rightarrow> l
      | None \<Rightarrow> c)"

definition lower :: "string \<Rightarrow> string" where
  "lower s = map lower_char s"

section \<open>Knowledge base (AIAgent)\<close>

record kb_entry =
  avoid :: "string list"
  modify :: "string list"
  compensatory :: "string list"

definition shoulder_entry :: kb_entry where
  "shoulder_entry = \<lparr>
     avoid = [''high arm raises'', ''shoulder rotations'', ''weight bearing on arms''],
     modify = [''keep arms below shoulder height'', ''reduce range of motion'',
               ''focus on lower body''],
     compensatory = [''leg strength'', ''core stability'', ''breathing techniques''] \<rparr>"

definition calf_entry :: kb_entry where
  "calf_entry = \<lparr>
     avoid = [''deep stances'', ''jumping'', ''prolonged standing''],
     modify = [''shorter stances'', ''chair support'', ''reduced duration''],
     compensatory = [''upper body flow'', ''seated practice'', ''breathing focus''] \<rparr>"

definition back_entry :: kb_entry where
  "back_entry = \<lparr>
     avoid = [''forward bends'', ''twisting'', ''arching''],
     modify = [''maintain neutral spine'', ''bend knees'', ''use support''],
     compensatory = [''gentle core engagement'', ''postural awareness'',
                     ''gradual progression''] \<rparr>"

text \<open>
  \<^verbatim>\<open>_load_injury_modifications\<close>: a dict with four keys. The other four
  members of \<^typ>\<open>BodyPart\<close> have no entry.
\<close>

fun injury_modifications :: "BodyPart \<Rightarrow> kb_entry option" where
  "injury_modifications LEFT_SHOULDER = Some shoulder_entry"
| "injury_modifications RIGHT_SHOULDER = Some shoulder_entry"
| "injury_modifications LEFT_CALF = Some calf_entry"
| "injury_modifications LOWER_BACK = Some back_entry"
| "injury_modifications _ = None"

section \<open>Plan generator (TaiChiCoachAgent)\<close>

record injury_impact =
  restrictions :: "string list"
  modifications :: "string list"
  focus_areas :: "string list"
  compensatory_strategies :: "string list"
  risk_factors :: "string list"
  rehabilitation_focus :: "string list"

definition empty_impact :: injury_impact where
  "empty_impact = \<lparr> restrictions = [], modifications = [], focus_areas = [],
     compensatory_strategies = [], risk_factors = [], rehabilitation_focus = [] \<rparr>"

text \<open>The f-string \<^verbatim>\<open>f"{restriction} ({severity.value})"\<close>.\<close>

definition annotate :: "InjurySeverity \<Rightarrow> string \<Rightarrow> string" where
  "annotate severity restriction = restriction @ '' ('' @ severity_value severity @ '')''"

text \<open>The body-part specific focus areas: an if/elif chain with no else.\<close>

fun part_focus :: "BodyPart \<Rightarrow> string list \<times> string list" where
  "part_focus LEFT_SHOULDER =
     ([''lower body stability and rooting'', ''deep diaphragmatic breathing'',
       ''mental visualization of arm movements''],
      [''gradual shoulder mobility restoration''])"
| "part_focus RIGHT_SHOULDER =
     ([''lower body stability and rooting'', ''deep diaphragmatic breathing'',
       ''mental visualization of arm movements''],
      [''gradual shoulder mobility restoration''])"
| "part_focus LEFT_CALF =
     ([''upper body flow and coordination'', ''seated Tai Chi practice'',
       ''breathing techniques for circulation''],
      [''progressive calf strengthening''])"
| "part_focus LOWER_BACK =
     ([''core engagement and stabilization'', ''postural alignment awareness'',
       ''gentle weight shifting''],
      [''spinal stabilization and core strength''])"
| "part_focus _ = ([], [])"

text \<open>One iteration of the loop of \<^verbatim>\<open>analyze_injury_impact\<close>, after the lookup.\<close>

definition add_part :: "injury_impact \<Rightarrow> BodyPart \<Rightarrow> InjurySeverity \<Rightarrow> kb_entry \<Rightarrow> injury_impact" where
  "add_part a body_part severity m =
     a \<lparr> restrictions := restrictions a @ map (annotate severity) (avoid m),
         modifications := modifications a @ modify m,
         compensatory_strategies := compensatory_strategies a @ compensatory m,
         focus_areas := focus_areas a @ fst (part_focus body_part),
         rehabilitation_focus := rehabilitation_focus a @ snd (part_focus body_part) \<rparr>"

text \<open>
  The loop: the subscript \<^verbatim>\<open>knowledge_base["injury_modifications"][body_part]\<close>
  raises \<^verbatim>\<open>KeyError\<close> for a body part without an entry, and the call ends there.
\<close>

fun analyze_loop :: "injury_impact \<Rightarrow> injuries \<Rightarrow> error + injury_impact" where
  "analyze_loop a [] = Inr a"
| "analyze_loop a ((body_part, severity) # rest) =
     (case injury_modifications body_part of
        None \<Rightarrow> Inl KeyError
      | Some m \<Rightarrow> analyze_loop (add_part a body_part severity m) rest)"

definition analyze_injury_impact :: "injuries \<Rightarrow> error + injury_impact" where
  "analyze_injury_impact injuries = analyze_loop empty_impact injuries"

text \<open>
  \<^verbatim>\<open>any(w in restriction for restriction in injury_impact["restrictions"])\<close>
\<close>

definition any_mentions :: "string \<Rightarrow> string list \<Rightarrow> bool" where
  "any_mentions w rs = list_ex (str_in w) rs"

definition any_mentions_lower :: "string \<Rightarrow> string list \<Rightarrow> bool" where
  "any_mentions_lower w rs = list_ex (\<lambda>r. str_in w (lower r)) rs"

text \<open>
  \<^verbatim>\<open>_calculate_optimal_duration\<close>. The phase argument is \<open>None\<close> for a value
  that is not one of the four members, where \<^verbatim>\<open>dict.get\<close> falls to its default.
\<close>

definition base_durations :: "WorkoutPhase option \<Rightarrow> int \<Rightarrow> int" where
  "base_durations phase week =
     (case phase of
        Some FOUNDATION \<Rightarrow> 10 + week * 2
      | Some BUILDING \<Rightarrow> 20 + max 0 (week - 12) * 3
      | Some INTEGRATION \<Rightarrow> 25 + max 0 (week - 24) * 2
      | Some MASTERY \<Rightarrow> 30 + max 0 (week - 36) * 1
      | None \<Rightarrow> 15)"

definition calculate_optimal_duration :: "WorkoutPhase option \<Rightarrow> int \<Rightarrow> injury_impact \<Rightarrow> int" where
  "calculate_optimal_duration phase week injury_impact =
     (let duration = base_durations phase week;
          duration = (if any_mentions ''standing'' (restrictions injury_impact)
                      then max 10 (duration - 5) else duration)
      in min duration 60)"

definition calculate_frequency :: "WorkoutPhase option \<Rightarrow> int \<Rightarrow> int" where
  "calculate_frequency phase week =
     (case phase of
        Some FOUNDATION \<Rightarrow> 3 | Some BUILDING \<Rightarrow> 4
      | Some INTEGRATION \<Rightarrow> 5 | Some MASTERY \<Rightarrow> 6 | None \<Rightarrow> 3)"

definition get_energy_focus :: "WorkoutPhase option \<Rightarrow> int \<Rightarrow> string" where
  "get_energy_focus phase week =
     (case phase of
        Some FOUNDATION \<Rightarrow> ''grounding and centering''
      | Some BUILDING \<Rightarrow> ''flow and coordination''
      | Some INTEGRATION \<Rightarrow> ''internal energy circulation''
      | Some MASTERY \<Rightarrow> ''effortless power and mindfulness''
      | None \<Rightarrow> ''mind-body connection'')"

text \<open>
  An exercise dict; \<open>ex_modifications\<close> is \<open>None\<close> while the key
  \<^verbatim>\<open>"modifications"\<close> is absent.
\<close>

record exercise =
  category :: string
  name :: string
  duration :: int
  ex_modifications :: "string list option"

definition ex :: "string \<Rightarrow> string \<Rightarrow> int \<Rightarrow> exercise" where
  "ex c n d = \<lparr> category = c, name = n, duration = d, ex_modifications = None \<rparr>"

definition select_phase_exercises :: "WorkoutPhase option \<Rightarrow> injury_impact \<Rightarrow> int \<Rightarrow> exercise list" where
  "select_phase_exercises phase injury_impact week =
     (if phase = Some FOUNDATION then
        [ex ''breathing'' ''abdominal_breathing'' 5,
         ex ''warmup'' ''joint_rotations'' 5,
         ex ''qigong'' ''standing_meditation'' 8,
         ex ''qigong'' ''cloud_hands'' 7]
      else if phase = Some BUILDING then
        [ex ''breathing'' ''reverse_breathing'' 5,
         ex ''warmup'' ''gentle_stretching'' 7,
         ex ''qigong'' ''cloud_hands'' 10,
         ex ''forms'' ''commencement'' 8,
         ex ''forms'' ''ward_off'' 10]
      else
        [ex ''breathing'' ''reverse_breathing'' 5,
         ex ''warmup'' ''gentle_stretching'' 7,
         ex ''qigong'' ''cloud_hands'' 8,
         ex ''forms'' ''commencement'' 5,
         ex ''forms'' ''ward_off'' 8,
         ex ''forms'' ''roll_back'' 8,
         ex ''forms'' ''press'' 8])"

text \<open>The three rule groups of \<^verbatim>\<open>_apply_injury_modifications\<close>, as tested per exercise.\<close>

definition shoulder_rule :: "string list \<Rightarrow> exercise \<Rightarrow> bool" where
  "shoulder_rule rs e \<longleftrightarrow>
     any_mentions ''shoulder'' rs \<and> name e \<in> set [''cloud_hands'', ''ward_off'']"

definition standing_rule :: "string list \<Rightarrow> exercise \<Rightarrow> bool" where
  "standing_rule rs e \<longleftrightarrow>
     any_mentions ''standing'' rs \<and> category e \<in> set [''qigong'', ''forms'']"

definition back_rule :: "string list \<Rightarrow> exercise \<Rightarrow> bool" where
  "back_rule rs e \<longleftrightarrow>
     any_mentions_lower ''back'' rs \<and> name e \<in> set [''ward_off'', ''press'']"

text \<open>
  The body of the loop. The list \<open>mods\<close> grows from rule to rule; each rule that
  fires assigns the copy's duration from the duration of the \<^emph>\<open>original\<close> exercise
  (\<^verbatim>\<open>modified_exercise["duration"] = max(3, exercise["duration"] - 2)\<close>).
\<close>

definition modify_exercise :: "string list \<Rightarrow> exercise \<Rightarrow> exercise" where
  "modify_exercise rs exercise =
     (let modified_exercise = exercise;
          mods = [];
          (mods, modified_exercise) =
            (if shoulder_rule rs exercise
             then (mods @ [''keep arms below shoulder height'',
                           ''reduce arm movement range by 50%''],
                   modified_exercise \<lparr> duration := max 3 (duration exercise - 2) \<rparr>)
             else (mods, modified_exercise));
          (mods, modified_exercise) =
            (if standing_rule rs exercise
             then (mods @ [''use chair for support if needed'', ''shorter stance width''],
                   modified_exercise \<lparr> duration := max 3 (duration exercise - 3) \<rparr>)
             else (mods, modified_exercise));
          (mods, modified_exercise) =
            (if back_rule rs exercise
             then (mods @ [''maintain neutral spine'', ''engage core throughout movement''],
                   modified_exercise \<lparr> duration := max 3 (duration exercise - 2) \<rparr>)
             else (mods, modified_exercise))
      in if mods \<noteq> [] then modified_exercise \<lparr> ex_modifications := Some mods \<rparr>
         else modified_exercise)"

definition apply_injury_modifications :: "exercise list \<Rightarrow> injury_impact \<Rightarrow> exercise list" where
  "apply_injury_modifications exercises injury_impact =
     map (modify_exercise (restrictions injury_impact)) exercises"

record workout_plan =
  wp_phase :: "WorkoutPhase option"
  wp_week :: int
  duration_minutes :: int
  frequency_per_week :: int
  exercises :: "exercise list"
  precautions :: "string list"
  wp_modifications :: "string list"
  focus_points :: "string list"
  energy_focus :: string

definition generate_workout_plan :: "WorkoutPhase option \<Rightarrow> injury_impact \<Rightarrow> int \<Rightarrow> workout_plan" where
  "generate_workout_plan phase injury_impact week =
     \<lparr> wp_phase = phase,
       wp_week = week,
       duration_minutes = calculate_optimal_duration phase week injury_impact,
       frequency_per_week = calculate_frequency phase week,
       exercises = apply_injury_modifications
                     (select_phase_exercises phase injury_impact week) injury_impact,
       precautions = take 3 (restrictions injury_impact),
       wp_modifications = take 3 (modifications injury_impact),
       focus_points = take 2 (focus_areas injury_impact),
       energy_focus = get_energy_focus phase week \<rparr>"

text \<open>
  Plan generation for a profile: the impact analysis, then the plan, as the callers
  compose them (\<^verbatim>\<open>impact = agent.analyze_injury_impact(injuries)\<close>, then
  \<^verbatim>\<open>agent.generate_workout_plan(phase, impact, week)\<close>).
\<close>

definition plan_for_profile :: "WorkoutPhase option \<Rightarrow> injuries \<Rightarrow> int \<Rightarrow> error + workout_plan" where
  "plan_for_profile phase injuries week =
     (case analyze_injury_impact injuries of
        Inl e \<Rightarrow> Inl e
      | Inr impact \<Rightarrow> Inr (generate_workout_plan phase impact week))"

section \<open>Progress analyzer (ProgressTrackerAgent)\<close>

text \<open>
  The session dict handed to the tracker and to the safety monitor. A field is \<open>None\<close>
  while its key is absent: \<^verbatim>\<open>session_data['phase']\<close> then raises, and
  \<^verbatim>\<open>session_data.get('pain_level', 0)\<close> takes its default.
\<close>

record session_data =
  sd_phase :: "WorkoutPhase option"
  sd_week :: "int option"
  sd_duration_minutes :: "int option"
  pain_level :: "int option"
  fatigue_level :: "int option"
  mood_level :: "int option"
  sd_exercises :: "exercise list option"
  sd_modifications :: "string list option"
  completion_percentage :: "int option"
  sd_notes :: "string option"

definition get_or :: "'a option \<Rightarrow> 'a \<Rightarrow> 'a" where
  "get_or v d = (case v of None \<Rightarrow> d | Some x \<Rightarrow> x)"

text \<open>
  A row of the \<^verbatim>\<open>progress_data\<close> frame. The \<^verbatim>\<open>timestamp\<close> column
  (\<^verbatim>\<open>datetime.now()\<close>) is read by no computation and is left out.
\<close>

record progress_row =
  row_phase :: WorkoutPhase
  row_week :: int
  row_duration_minutes :: int
  row_pain_level :: int
  row_fatigue_level :: int
  row_mood_level :: int
  exercises_completed :: int
  modifications_used :: int
  row_completion_percentage :: int
  row_notes :: string

definition record_session :: "progress_row list \<Rightarrow> session_data \<Rightarrow> error + progress_row list" where
  "record_session progress_data sd =
     (case (sd_phase sd, sd_week sd, sd_duration_minutes sd, sd_exercises sd) of
        (Some p, Some w, Some d, Some exs) \<Rightarrow>
          Inr (progress_data @
            [\<lparr> row_phase = p, row_week = w, row_duration_minutes = d,
               row_pain_level = get_or (pain_level sd) 0,
               row_fatigue_level = get_or (fatigue_level sd) 0,
               row_mood_level = get_or (mood_level sd) 0,
               exercises_completed = int (length exs),
               modifications_used = int (length (get_or (sd_modifications sd) [])),
               row_completion_percentage = get_or (completion_percentage sd) 100,
               row_notes = get_or (sd_notes sd) [] \<rparr>])
      | _ \<Rightarrow> Inl KeyError)"

text \<open>
  \<^verbatim>\<open>DataFrame.tail(n)\<close>: the last \<open>n\<close> rows; no row for \<open>n = 0\<close>; all rows but
  the first \<open>-n\<close> for a negative \<open>n\<close>.
\<close>

definition tail :: "int \<Rightarrow> 'a list \<Rightarrow> 'a list" where
  "tail n xs =
     (if n = 0 then []
      else if 0 < n then drop (length xs - nat n) xs
      else drop (nat (- n)) xs)"

text \<open>
  \<^verbatim>\<open>Series.mean()\<close> with exact arithmetic; \<open>None\<close> is the NaN of an empty
  series. \<^verbatim>\<open>Series.std()\<close> is the sample standard deviation.
\<close>

definition mean :: "int list \<Rightarrow> real option" where
  "mean xs = (if xs = [] then None
              else Some (real_of_int (sum_list xs) / real (length xs)))"

definition std :: "int list \<Rightarrow> real" where
  "std xs =
     (let m = real_of_int (sum_list xs) / real (length xs)
      in sqrt (sum_list (map (\<lambda>x. (real_of_int x - m)\<^sup>2) xs) / (real (length xs) - 1)))"

text \<open>A comparison with NaN is false.\<close>

definition gt :: "real option \<Rightarrow> real \<Rightarrow> bool" where
  "gt a t = (case a of None \<Rightarrow> False | Some v \<Rightarrow> t < v)"

definition lt :: "real option \<Rightarrow> real \<Rightarrow> bool" where
  "lt a t = (case a of None \<Rightarrow> False | Some v \<Rightarrow> v < t)"

definition calculate_consistency :: "progress_row list \<Rightarrow> real" where
  "calculate_consistency data =
     (if length data < 2 then 100
      else
        let completion_std = std (map row_completion_percentage data);
            duration_std = std (map row_duration_minutes data);
            completion_consistency = max 0 (100 - completion_std * 10);
            duration_consistency = max 0 (100 - duration_std * 5)
        in (completion_consistency + duration_consistency) / 2)"

definition calculate_trend :: "int list \<Rightarrow> string" where
  "calculate_trend vals =
     (if length vals < 2 then ''stable''
      else if real_of_int (last vals) > real_of_int (hd vals) + 0.5 then ''increasing''
      else if real_of_int (last vals) < real_of_int (hd vals) - 0.5 then ''decreasing''
      else ''stable'')"

definition generate_recommendations :: "progress_row list \<Rightarrow> string list" where
  "generate_recommendations data =
     (let recommendations = [];
          avg_pain = mean (map row_pain_level data);
          avg_fatigue = mean (map row_fatigue_level data);
          completion_rate = mean (map row_completion_percentage data);
          recommendations =
            (if gt avg_pain 6 then
               recommendations @ [''reduce_intensity_50_percent'',
                                  ''focus_on_breathing_exercises'',
                                  ''consult_healthcare_provider_if_persistent'']
             else if gt avg_pain 4 then recommendations @ [''maintain_current_intensity'']
             else recommendations);
          recommendations =
            (if gt avg_fatigue 6 then
               recommendations @ [''ensure_adequate_rest'',
                                  ''reduce_frequency_by_one_session'',
                                  ''focus_on_recovery_nutrition'']
             else recommendations);
          recommendations =
            (if gt completion_rate 90 then
               recommendations @ [''consider_moderate_progression'']
             else if lt completion_rate 70 then
               recommendations @ [''simplify_exercises_temporarily'']
             else recommendations)
      in if recommendations \<noteq> [] then recommendations else [''continue_current_program''])"

definition identify_risk_factors :: "progress_row list \<Rightarrow> string list" where
  "identify_risk_factors data =
     (if 3 \<le> length data then
        (if list_all (\<lambda>pain. 5 \<le> pain) (tail 3 (map row_pain_level data))
         then [''persistent_moderate_pain''] else []) @
        (if list_all (\<lambda>completion. completion < 60)
              (tail 3 (map row_completion_percentage data))
         then [''consistent_low_completion''] else [])
      else [])"

record performance_metrics =
  avg_duration :: "real option"
  avg_pain :: "real option"
  avg_fatigue :: "real option"
  completion_rate :: "real option"
  consistency_score :: real

record trends =
  pain_trend :: string
  duration_trend :: string
  completion_trend :: string

text \<open>
  The dict returned by \<^verbatim>\<open>analyze_trends\<close>: the sentinel has the keys
  \<^verbatim>\<open>status\<close> and \<^verbatim>\<open>recommendations\<close> only, the analysis has all keys but
  \<^verbatim>\<open>status\<close>.
\<close>

record trend_report =
  status :: "string option"
  metrics :: "performance_metrics option"
  trend_directions :: "trends option"
  recommendations :: "string list"
  tr_risk_factors :: "string list option"

definition analyze_trends :: "progress_row list \<Rightarrow> int \<Rightarrow> trend_report" where
  "analyze_trends progress_data window_size =
     (if progress_data = [] then
        \<lparr> status = Some ''no_data'', metrics = None, trend_directions = None,
          recommendations = [''continue_baseline''], tr_risk_factors = None \<rparr>
      else
        let recent_data = tail window_size progress_data
        in \<lparr> status = None,
             metrics = Some
               \<lparr> avg_duration = mean (map row_duration_minutes recent_data),
                 avg_pain = mean (map row_pain_level recent_data),
                 avg_fatigue = mean (map row_fatigue_level recent_data),
                 completion_rate = mean (map row_completion_percentage recent_data),
                 consistency_score = calculate_consistency recent_data \<rparr>,
             trend_directions = Some
               \<lparr> pain_trend = calculate_trend (map row_pain_level recent_data),
                 duration_trend = calculate_trend (map row_duration_minutes recent_data),
                 completion_trend =
                   calculate_trend (map row_completion_percentage recent_data) \<rparr>,
             recommendations = generate_recommendations recent_data,
             tr_risk_factors = Some (identify_risk_factors recent_data) \<rparr>)"

section \<open>Safety monitor (SafetyMonitorAgent)\<close>

definition pain_level_red :: int where "pain_level_red = 7"
definition pain_level_yellow :: int where "pain_level_yellow = 4"
definition fatigue_level_red :: int where "fatigue_level_red = 8"
definition completion_minimum :: int where "completion_minimum = 50"

record safety_report =
  safety_level :: string
  immediate_actions :: "string list"
  long_term_recommendations :: "string list"
  sr_risk_factors :: "string list"
  clearance_for_next_session :: bool

fun strictly_increasing :: "int list \<Rightarrow> bool" where
  "strictly_increasing (a # b # rest) = (a < b \<and> strictly_increasing (b # rest))"
| "strictly_increasing _ = True"

definition analyze_safety_trends :: "session_data list \<Rightarrow> string list" where
  "analyze_safety_trends session_history =
     (if length session_history < 3 then []
      else
        let recent_sessions = drop (length session_history - 3) session_history;
            pain_levels = map (\<lambda>s. get_or (pain_level s) 0) recent_sessions;
            fatigue_levels = map (\<lambda>s. get_or (fatigue_level s) 0) recent_sessions
        in (if strictly_increasing pain_levels then [''INCREASING_PAIN_TREND''] else []) @
           (if list_all (\<lambda>fatigue. 6 \<le> fatigue) fatigue_levels
            then [''PERSISTENT_HIGH_FATIGUE''] else []))"

text \<open>
  \<^verbatim>\<open>assess_session_safety\<close> reads and updates \<^verbatim>\<open>self.session_history\<close>: the
  history goes in and comes back with the report.
\<close>

definition assess_session_safety ::
  "session_data list \<Rightarrow> session_data \<Rightarrow> safety_report \<times> session_data list" where
  "assess_session_safety session_history sd =
     (let safety_report =
            \<lparr> safety_level = ''green'', immediate_actions = [],
              long_term_recommendations = [], sr_risk_factors = [],
              clearance_for_next_session = True \<rparr>;
          pain = get_or (pain_level sd) 0;
          fatigue = get_or (fatigue_level sd) 0;
          completion = get_or (completion_percentage sd) 100;
          safety_report =
            (if pain_level_red \<le> pain then
               safety_report
                 \<lparr> safety_level := ''red'',
                   immediate_actions := immediate_actions safety_report @
                     [''STOP_ALL_ACTIVITY_IMMEDIATELY'', ''REST_UNTIL_PAIN_SUBSIDES'',
                      ''CONSULT_HEALTHCARE_PROVIDER''],
                   clearance_for_next_session := False \<rparr>
             else if pain_level_yellow \<le> pain then
               safety_report
                 \<lparr> safety_level := ''yellow'',
                   immediate_actions := immediate_actions safety_report @
                     [''REDUCE_INTENSITY_BY_50_PERCENT'', ''FOCUS_ON_BREATHING_EXERCISES'',
                      ''MONITOR_PAIN_CLOSELY''] \<rparr>
             else safety_report);
          safety_report =
            (if fatigue_level_red \<le> fatigue then
               safety_report
                 \<lparr> safety_level :=
                     (if safety_level safety_report \<noteq> ''red'' then ''red'' else ''red''),
                   immediate_actions := immediate_actions safety_report @
                     [''REQUIRE_COMPLETE_REST_DAY''],
                   long_term_recommendations := long_term_recommendations safety_report @
                     [''REVIEW_SLEEP_AND_RECOVERY''] \<rparr>
             else safety_report);
          safety_report =
            (if completion < completion_minimum then
               safety_report
                 \<lparr> sr_risk_factors := sr_risk_factors safety_report @
                     [''LOW_COMPLETION_RATE''],
                   long_term_recommendations := long_term_recommendations safety_report @
                     [''SIMPLIFY_WORKOUT_COMPLEXITY''] \<rparr>
             else safety_report);
          session_history = session_history @ [sd];
          session_history =
            (if 5 < length session_history then tl session_history else session_history);
          trend_risks = analyze_safety_trends session_history
      in (safety_report \<lparr> sr_risk_factors := sr_risk_factors safety_report @ trend_risks \<rparr>,
          session_history))"

record guidelines =
  daily_precautions :: "string list"
  warning_signs :: "string list"
  emergency_procedures :: "string list"

text \<open>The if/elif chain of \<^verbatim>\<open>generate_safety_guidelines\<close>; it has no else.\<close>

fun part_guidelines :: "BodyPart \<Rightarrow> string list \<times> string list" where
  "part_guidelines LEFT_SHOULDER =
     ([''Avoid raising arms above shoulder level'',
       ''Use mirror to monitor posture alignment'',
       ''Stop immediately if sharp shoulder pain occurs''],
      [''Radiating pain down the arm''])"
| "part_guidelines RIGHT_SHOULDER =
     ([''Avoid raising arms above shoulder level'',
       ''Use mirror to monitor posture alignment'',
       ''Stop immediately if sharp shoulder pain occurs''],
      [''Radiating pain down the arm''])"
| "part_guidelines LEFT_CALF =
     ([''Have chair available for support'',
       ''Monitor for swelling after exercise'',
       ''Ice calf if any discomfort occurs''],
      [''Sharp pain during weight bearing''])"
| "part_guidelines LOWER_BACK =
     ([''Maintain neutral spine during all movements'',
       ''Engage core muscles before moving'',
       ''Avoid sudden twisting motions''],
      [''Numbness or tingling in legs''])"
| "part_guidelines _ = ([], [])"

fun guidelines_loop :: "guidelines \<Rightarrow> injuries \<Rightarrow> guidelines" where
  "guidelines_loop g [] = g"
| "guidelines_loop g ((body_part, severity) # rest) =
     guidelines_loop
       (g \<lparr> daily_precautions := daily_precautions g @ fst (part_guidelines body_part),
            warning_signs := warning_signs g @ snd (part_guidelines body_part) \<rparr>)
       rest"

definition generate_safety_guidelines :: "injuries \<Rightarrow> guidelines" where
  "generate_safety_guidelines injuries =
     (guidelines_loop
        \<lparr> daily_precautions = [], warning_signs = [], emergency_procedures = [] \<rparr>
        injuries)
     \<lparr> emergency_procedures :=
         [''Stop immediately if severe pain occurs'',
          ''Apply ice to injured area'',
          ''Contact healthcare provider if symptoms persist'',
          ''Rest completely until professional assessment''] \<rparr>"

section \<open>Program coordinator (TaiChiProgram)\<close>

text \<open>
  The phase lengths of \<^verbatim>\<open>_load_progression_rules\<close>
  (\<^verbatim>\<open>"phase_duration_weeks"\<close>).
\<close>

fun phase_duration_weeks :: "WorkoutPhase \<Rightarrow> int" where
  "phase_duration_weeks FOUNDATION = 12"
| "phase_duration_weeks BUILDING = 12"
| "phase_duration_weeks INTEGRATION = 12"
| "phase_duration_weeks MASTERY = 16"

text \<open>
  Modelled from the spec: the class \<^verbatim>\<open>TaiChiProgram\<close> of
  \<^verbatim>\<open>core/program_manager.py\<close> is not among the sources; only its callers in
  \<^verbatim>\<open>main.py\<close> and \<^verbatim>\<open>examples/basic_usage.py\<close> are. The state is the
  spec's ProgramState: current week and phase, the injury profile, and the state of the
  analyzer (its log) and of the monitor (its history).
\<close>

record program_state =
  current_week :: int
  current_phase :: WorkoutPhase
  injury_profile :: injuries
  progress_data :: "progress_row list"
  session_history :: "session_data list"

text \<open>
  Modelled from the spec: the phase of a week, ``derived from week via fixed phase-length
  boundaries (Foundation 1--12, Building 13--24, Integration 25--36, Mastery 37--52)''.
  The boundaries are the running sums of \<^const>\<open>phase_duration_weeks\<close>.
\<close>

definition phase_of_week :: "int \<Rightarrow> WorkoutPhase" where
  "phase_of_week week =
     (if week \<le> phase_duration_weeks FOUNDATION then FOUNDATION
      else if week \<le> phase_duration_weeks FOUNDATION + phase_duration_weeks BUILDING
        then BUILDING
      else if week \<le> phase_duration_weeks FOUNDATION + phase_duration_weeks BUILDING
                     + phase_duration_weeks INTEGRATION
        then INTEGRATION
      else MASTERY)"

text \<open>
  Modelled from the spec: \<^verbatim>\<open>initialize\<close>, ``Initial state: week = 1, phase =
  Foundation'', with an empty log and an empty history.
\<close>

definition initialize :: "injuries \<Rightarrow> program_state" where
  "initialize profile =
     \<lparr> current_week = 1, current_phase = FOUNDATION, injury_profile = profile,
       progress_data = [], session_history = [] \<rparr>"

text \<open>
  Modelled from the spec: \<^verbatim>\<open>getCurrentWorkout\<close> ``returns the Plan Generator's output
  for (current phase, current week, injury profile)''. The plan generator is the source's.
\<close>

definition get_current_workout :: "program_state \<Rightarrow> error + workout_plan" where
  "get_current_workout s =
     plan_for_profile (Some (current_phase s)) (injury_profile s) (current_week s)"

text \<open>
  Modelled from the spec: the range check of \<^verbatim>\<open>completeSession\<close>, which ``fails with
  ValidationError if any numeric input is outside its closed range'' (pain and fatigue
  0 to 10, completion 0 to 100).
\<close>

definition valid_feedback :: "int \<Rightarrow> int \<Rightarrow> int \<Rightarrow> bool" where
  "valid_feedback pain fatigue completion \<longleftrightarrow>
     0 \<le> pain \<and> pain \<le> 10 \<and> 0 \<le> fatigue \<and> fatigue \<le> 10 \<and>
     0 \<le> completion \<and> completion \<le> 100"

text \<open>
  Modelled from the spec: \<^verbatim>\<open>completeSession\<close>. After the range check, ``(1) build
  current WorkoutPlan via Plan Generator, (2) forward a SessionRecord to Progress
  Analyzer, (3) forward raw feedback to Safety Monitor, (4) increment week by 1 (clamped
  at 52), (5) recompute phase from new week''. A failure leaves no new state.
\<close>

definition complete_session ::
  "program_state \<Rightarrow> int \<Rightarrow> int \<Rightarrow> int \<Rightarrow> string option \<Rightarrow> error + program_state" where
  "complete_session s pain fatigue completion note =
     (if \<not> valid_feedback pain fatigue completion then Inl ValidationError
      else
        case get_current_workout s of
          Inl e \<Rightarrow> Inl e
        | Inr plan \<Rightarrow>
            (let sd = \<lparr> sd_phase = Some (current_phase s),
                        sd_week = Some (current_week s),
                        sd_duration_minutes = Some (duration_minutes plan),
                        pain_level = Some pain,
                        fatigue_level = Some fatigue,
                        mood_level = None,
                        sd_exercises = Some (exercises plan),
                        sd_modifications = Some (wp_modifications plan),
                        completion_percentage = Some completion,
                        sd_notes = note \<rparr>
             in (case record_session (progress_data s) sd of
                   Inl e \<Rightarrow> Inl e
                 | Inr rows \<Rightarrow>
                     (let history = snd (assess_session_safety (session_history s) sd);
                          week = min 52 (current_week s + 1)
                      in Inr (s \<lparr> progress_data := rows,
                                  session_history := history,
                                  current_week := week,
                                  current_phase := phase_of_week week \<rparr>)))))"

text \<open>
  Modelled from the spec: a sequence of \<^verbatim>\<open>completeSession\<close> calls, each on the state
  the one before left; the first failure ends the run.
\<close>

fun complete_sessions ::
  "program_state \<Rightarrow> (int \<times> int \<times> int \<times> string option) list \<Rightarrow> error + program_state" where
  "complete_sessions s [] = Inr s"
| "complete_sessions s ((pain, fatigue, completion, note) # rest) =
     (case complete_session s pain fatigue completion note of
        Inl e \<Rightarrow> Inl e
      | Inr s' \<Rightarrow> complete_sessions s' rest)"

section \<open>Auxiliary definitions for the statements\<close>

text \<open>
  The duration that cumulative reductions would give: every rule group that matches
  takes its 2, 3 or 2 minutes, and the result is floored at 3.
\<close>

definition cumulative_duration :: "string list \<Rightarrow> exercise \<Rightarrow> int" where
  "cumulative_duration rs e =
     max 3 (duration e - ((if shoulder_rule rs e then 2 else 0) +
                          (if standing_rule rs e then 3 else 0) +
                          (if back_rule rs e then 2 else 0)))"

text \<open>
  The session dict of the monitor's tests: the three keys \<^verbatim>\<open>pain_level\<close>,
  \<^verbatim>\<open>fatigue_level\<close> and \<^verbatim>\<open>completion_percentage\<close>.
\<close>

definition feedback :: "int \<Rightarrow> int \<Rightarrow> int \<Rightarrow> session_data" where
  "feedback pain fatigue completion =
     \<lparr> sd_phase = None, sd_week = None, sd_duration_minutes = None,
       pain_level = Some pain, fatigue_level = Some fatigue, mood_level = None,
       sd_exercises = None, sd_modifications = None,
       completion_percentage = Some completion, sd_notes = None \<rparr>"

text \<open>
  A session dict with every key the tracker subscripts, as the tracker's tests build it
  (with the \<^verbatim>\<open>exercises\<close> of the foundation phase).
\<close>

definition session :: "int \<Rightarrow> int \<Rightarrow> int \<Rightarrow> int \<Rightarrow> session_data" where
  "session week pain fatigue completion =
     (feedback pain fatigue completion)
       \<lparr> sd_phase := Some FOUNDATION, sd_week := Some week,
         sd_duration_minutes := Some (10 + 2 * week),
         sd_exercises := Some (select_phase_exercises (Some FOUNDATION) empty_impact week) \<rparr>"

text \<open>The monitor's history after a sequence of assessments.\<close>

definition history_after :: "session_data list \<Rightarrow> session_data list \<Rightarrow> session_data list" where
  "history_after h sessions = foldl (\<lambda>h sd. snd (assess_session_safety h sd)) h sessions"

text \<open>The tracker's log after a sequence of recordings; the first raise ends it.\<close>

fun record_all :: "progress_row list \<Rightarrow> session_data list \<Rightarrow> error + progress_row list" where
  "record_all rows [] = Inr rows"
| "record_all rows (sd # rest) =
     (case record_session rows sd of
        Inl e \<Rightarrow> Inl e
      | Inr rows' \<Rightarrow> record_all rows' rest)"

text \<open>The body parts with an entry in the knowledge base, and those without.\<close>

definition handled :: "BodyPart \<Rightarrow> bool" where
  "handled b \<longleftrightarrow> b \<in> set [LEFT_SHOULDER, RIGHT_SHOULDER, LEFT_CALF, LOWER_BACK]"

definition unhandled :: "BodyPart \<Rightarrow> bool" where
  "unhandled b \<longleftrightarrow> b \<in> set [NECK, HIPS, UPPER_BACK, RIGHT_CALF]"

text \<open>
  The tags of the threshold rules that fire on the three means, in the order of the
  rules.
\<close>

definition fired_rules :: "real \<Rightarrow> real \<Rightarrow> real \<Rightarrow> string list" where
  "fired_rules mean_pain mean_fatigue mean_completion =
     (if 6 < mean_pain then
        [''reduce_intensity_50_percent'', ''focus_on_breathing_exercises'',
         ''consult_healthcare_provider_if_persistent'']
      else if 4 < mean_pain then [''maintain_current_intensity'']
      else []) @
     (if 6 < mean_fatigue then
        [''ensure_adequate_rest'', ''reduce_frequency_by_one_session'',
         ''focus_on_recovery_nutrition'']
      else []) @
     (if 90 < mean_completion then [''consider_moderate_progression''] else []) @
     (if mean_completion < 70 then [''simplify_exercises_temporarily''] else [])"

definition average :: "int list \<Rightarrow> real" where
  "average xs = real_of_int (sum_list xs) / real (length xs)"

section \<open>Plan generator: duration\<close>

lemma base_durations_mono: "w1 \<le> w2 \<Longrightarrow> base_durations p w1 \<le> base_durations p w2"
  by (auto simp: base_durations_def split: option.splits WorkoutPhase.splits)

lemma base_durations_ge: "1 \<le> w \<Longrightarrow> 10 \<le> base_durations p w"
  by (auto simp: base_durations_def split: option.splits WorkoutPhase.splits)

text \<open>
  Claim C5. For every phase (an unknown one included) and every week from 1 on,
  \<^const>\<open>calculate_optimal_duration\<close> lies between 10 and 60; and for a fixed phase and a
  restriction summary in which no restriction contains ``standing'', it is monotonically
  non-decreasing in the week.
\<close>

theorem calculate_optimal_duration_range_mono:
  "(1 \<le> week \<longrightarrow>
      10 \<le> calculate_optimal_duration phase week imp \<and>
      calculate_optimal_duration phase week imp \<le> 60) \<and>
   (\<not> any_mentions ''standing'' (restrictions imp) \<and> w1 \<le> w2 \<longrightarrow>
      calculate_optimal_duration phase w1 imp \<le> calculate_optimal_duration phase w2 imp)"
  using base_durations_mono[of w1 w2 phase] base_durations_ge[of week phase]
  by (auto simp: calculate_optimal_duration_def Let_def)

theorem calculate_optimal_duration_range_mono_witness:
  "(1::int) \<le> 3 \<and>
   10 \<le> calculate_optimal_duration (Some FOUNDATION) 3
           (empty_impact \<lparr> restrictions := [''shoulder rotations (mild)''] \<rparr>) \<and>
   calculate_optimal_duration (Some FOUNDATION) 3
     (empty_impact \<lparr> restrictions := [''shoulder rotations (mild)''] \<rparr>) \<le> 60 \<and>
   \<not> any_mentions ''standing''
       (restrictions (empty_impact \<lparr> restrictions := [''shoulder rotations (mild)''] \<rparr>)) \<and>
   (3::int) \<le> 30 \<and>
   calculate_optimal_duration (Some FOUNDATION) 3
     (empty_impact \<lparr> restrictions := [''shoulder rotations (mild)''] \<rparr>)
   \<le> calculate_optimal_duration (Some FOUNDATION) 30
     (empty_impact \<lparr> restrictions := [''shoulder rotations (mild)''] \<rparr>)"
  using calculate_optimal_duration_range_mono
    [of 3 "Some FOUNDATION" "empty_impact \<lparr> restrictions := [''shoulder rotations (mild)''] \<rparr>"
        3 30]
  by (simp add: any_mentions_def empty_impact_def)

section \<open>Plan generator: injury modifications\<close>

lemmas rule_defs = shoulder_rule_def standing_rule_def back_rule_def any_mentions_def
  any_mentions_lower_def lower_def lower_char_def

text \<open>
  What the loop body computes. The modification strings of all matching groups are
  kept, in the order of the groups; the duration is the one assigned by the \<^emph>\<open>last\<close>
  matching group, computed from the base duration.
\<close>

lemma modify_exercise_duration:
  "duration (modify_exercise rs e) =
     (if back_rule rs e then max 3 (duration e - 2)
      else if standing_rule rs e then max 3 (duration e - 3)
      else if shoulder_rule rs e then max 3 (duration e - 2)
      else duration e)"
  by (simp add: modify_exercise_def)

lemma modify_exercise_modifications:
  "ex_modifications (modify_exercise rs e) =
     (let mods =
        (if shoulder_rule rs e
         then [''keep arms below shoulder height'', ''reduce arm movement range by 50%'']
         else []) @
        (if standing_rule rs e
         then [''use chair for support if needed'', ''shorter stance width''] else []) @
        (if back_rule rs e
         then [''maintain neutral spine'', ''engage core throughout movement''] else [])
      in if mods = [] then ex_modifications e else Some mods)"
  by (simp add: modify_exercise_def)

lemma modify_exercise_floor:
  "shoulder_rule rs e \<or> standing_rule rs e \<or> back_rule rs e \<Longrightarrow>
   3 \<le> duration (modify_exercise rs e)"
  by (auto simp: modify_exercise_duration)

text \<open>With at most one matching group the two durations agree.\<close>

lemma modify_exercise_single_group:
  "\<not> (shoulder_rule rs e \<and> standing_rule rs e) \<Longrightarrow>
   \<not> (shoulder_rule rs e \<and> back_rule rs e) \<Longrightarrow>
   \<not> (standing_rule rs e \<and> back_rule rs e) \<Longrightarrow>
   3 \<le> duration e \<Longrightarrow>
   duration (modify_exercise rs e) = cumulative_duration rs e"
  by (auto simp: modify_exercise_duration cumulative_duration_def)

text \<open>
  Claim C1. The claim is that an exercise matching \<open>k\<close> rule groups loses the sum of the
  \<open>k\<close> group reductions (floored at 3) and gets the strings of every matching group.
  Evaluated on the profile left shoulder and left calf, building phase, week 13:
  \<^verbatim>\<open>cloud_hands\<close> (a qigong exercise of 10 minutes in that phase's list) matches
  the shoulder group and the standing group and not the back group. The code returns
  7 minutes, the standing group's \<open>10 - 3\<close>; the sum of the two reductions gives
  \<open>10 - 2 - 3 = 5\<close>.
\<close>

theorem apply_modifications_overwrites_duration:
  "map_sum id
     (\<lambda>i. let e = ex ''qigong'' ''cloud_hands'' 10; rs = restrictions i
          in (e \<in> set (select_phase_exercises (Some BUILDING) i 13),
              shoulder_rule rs e, standing_rule rs e, back_rule rs e,
              duration (modify_exercise rs e), cumulative_duration rs e))
     (analyze_injury_impact [(LEFT_SHOULDER, MODERATE), (LEFT_CALF, MODERATE)])
   = Inr (True, True, True, False, 7, 5)"
  by (simp add: analyze_injury_impact_def empty_impact_def add_part_def shoulder_entry_def
        calf_entry_def annotate_def select_phase_exercises_def ex_def rule_defs
        modify_exercise_def cumulative_duration_def)

section \<open>Plan generator: totality\<close>

lemma injury_modifications_handled: "handled b \<Longrightarrow> \<exists>m. injury_modifications b = Some m"
  by (auto simp: handled_def)

lemma injury_modifications_unhandled: "unhandled b \<Longrightarrow> injury_modifications b = None"
  by (auto simp: unhandled_def)

lemma handled_iff_not_unhandled: "handled b \<longleftrightarrow> \<not> unhandled b"
  by (cases b) (simp_all add: handled_def unhandled_def)

text \<open>On a profile of body parts that have a knowledge-base entry the analysis returns.\<close>

lemma analyze_loop_total:
  "list_all (\<lambda>(b, s). handled b) injuries \<Longrightarrow> \<exists>i. analyze_loop a injuries = Inr i"
proof (induction a injuries rule: analyze_loop.induct)
  case (1 a)
  show ?case by simp
next
  case (2 a body_part severity rest)
  from 2(2) have h: "handled body_part" and r: "list_all (\<lambda>(b, s). handled b) rest"
    by simp_all
  from injury_modifications_handled[OF h] obtain m
    where m: "injury_modifications body_part = Some m" ..
  from 2(1)[OF m r] m show ?case by simp
qed

lemma plan_for_profile_total:
  "list_all (\<lambda>(b, s). handled b) injuries \<Longrightarrow>
   \<exists>plan. plan_for_profile phase injuries week = Inr plan"
  using analyze_loop_total[of injuries empty_impact]
  by (auto simp: plan_for_profile_def analyze_injury_impact_def)

text \<open>
  The defaults of a phase value outside the four members: frequency 3, the energy focus
  ``mind-body connection'', and the base duration 15 (10 once a restriction mentions
  ``standing'').
\<close>

lemma plan_for_profile_defaults:
  "plan_for_profile None injuries week = Inr plan \<Longrightarrow>
     frequency_per_week plan = 3 \<and> energy_focus plan = ''mind-body connection'' \<and>
     duration_minutes plan \<in> {10, 15}"
  by (auto simp: plan_for_profile_def generate_workout_plan_def calculate_frequency_def
        get_energy_focus_def calculate_optimal_duration_def base_durations_def
        split: sum.splits if_splits)

text \<open>
  Claim C2. The claim is that plan generation never raises, for a profile over any of
  the eight body parts. Evaluated on the profile \<^verbatim>\<open>{NECK: MILD}\<close>: the subscript
  of the knowledge base raises \<^verbatim>\<open>KeyError\<close>, for every phase and week, and no plan
  is produced.
\<close>

theorem plan_for_profile_neck_raises:
  "plan_for_profile phase [(NECK, MILD)] week = Inl KeyError"
  by (simp add: plan_for_profile_def analyze_injury_impact_def)

section \<open>Safety monitor: one session\<close>

lemmas threshold_defs = pain_level_red_def pain_level_yellow_def fatigue_level_red_def
  completion_minimum_def

text \<open>Each field of the report, as a function of the three readings.\<close>

lemma assess_safety_level:
  "safety_level (fst (assess_session_safety h sd)) =
     (if 7 \<le> get_or (pain_level sd) 0 \<or> 8 \<le> get_or (fatigue_level sd) 0 then ''red''
      else if 4 \<le> get_or (pain_level sd) 0 then ''yellow'' else ''green'')"
  by (simp add: assess_session_safety_def Let_def threshold_defs)

lemma assess_clearance:
  "clearance_for_next_session (fst (assess_session_safety h sd)) \<longleftrightarrow>
     get_or (pain_level sd) 0 < 7"
  by (auto simp add: assess_session_safety_def Let_def threshold_defs)

lemma assess_immediate_actions:
  "immediate_actions (fst (assess_session_safety h sd)) =
     (if 7 \<le> get_or (pain_level sd) 0 then
        [''STOP_ALL_ACTIVITY_IMMEDIATELY'', ''REST_UNTIL_PAIN_SUBSIDES'',
         ''CONSULT_HEALTHCARE_PROVIDER'']
      else if 4 \<le> get_or (pain_level sd) 0 then
        [''REDUCE_INTENSITY_BY_50_PERCENT'', ''FOCUS_ON_BREATHING_EXERCISES'',
         ''MONITOR_PAIN_CLOSELY'']
      else []) @
     (if 8 \<le> get_or (fatigue_level sd) 0 then [''REQUIRE_COMPLETE_REST_DAY''] else [])"
  by (simp add: assess_session_safety_def Let_def threshold_defs)

lemma assess_long_term:
  "long_term_recommendations (fst (assess_session_safety h sd)) =
     (if 8 \<le> get_or (fatigue_level sd) 0 then [''REVIEW_SLEEP_AND_RECOVERY''] else []) @
     (if get_or (completion_percentage sd) 100 < 50
      then [''SIMPLIFY_WORKOUT_COMPLEXITY''] else [])"
  by (simp add: assess_session_safety_def Let_def threshold_defs)

lemma assess_history:
  "snd (assess_session_safety h sd) =
     (if 5 < length (h @ [sd]) then tl (h @ [sd]) else h @ [sd])"
  by (simp add: assess_session_safety_def Let_def)

lemma assess_risk_factors:
  "sr_risk_factors (fst (assess_session_safety h sd)) =
     (if get_or (completion_percentage sd) 100 < 50 then [''LOW_COMPLETION_RATE''] else []) @
     analyze_safety_trends (snd (assess_session_safety h sd))"
  by (simp add: assess_session_safety_def Let_def threshold_defs)

text \<open>
  The parts of the relation between level and clearance that the code keeps: a verdict
  that is red from pain of 7 or more has no clearance, and a yellow verdict has it.
\<close>

lemma pain_red_no_clearance:
  "7 \<le> get_or (pain_level sd) 0 \<Longrightarrow>
   safety_level (fst (assess_session_safety h sd)) = ''red'' \<and>
   \<not> clearance_for_next_session (fst (assess_session_safety h sd))"
  by (simp add: assess_safety_level assess_clearance)

lemma yellow_has_clearance:
  "safety_level (fst (assess_session_safety h sd)) = ''yellow'' \<Longrightarrow>
   clearance_for_next_session (fst (assess_session_safety h sd))"
  by (auto simp add: assess_safety_level assess_clearance split: if_splits)

text \<open>
  Claim C3. The claim is that a red verdict never has clearance for the next session,
  and a yellow verdict always has it. Evaluated on pain 3, fatigue 9, completion 95:
  the fatigue branch sets the level to red and requires a complete rest day, but does
  not make the assignment \<^verbatim>\<open>clearance_for_next_session = False\<close> that the
  pain branch makes beside its red, so the verdict is red with the clearance still true.
\<close>

theorem fatigue_red_keeps_clearance:
  "safety_level (fst (assess_session_safety [] (feedback 3 9 95))) = ''red'' \<and>
   ''REQUIRE_COMPLETE_REST_DAY'' \<in>
     set (immediate_actions (fst (assess_session_safety [] (feedback 3 9 95)))) \<and>
   clearance_for_next_session (fst (assess_session_safety [] (feedback 3 9 95)))"
  by (simp add: assess_safety_level assess_clearance assess_immediate_actions
        feedback_def get_or_def)

text \<open>
  Claim C4, as stated, fails in its last part: a completion below 50 adds more than a
  risk tag. With pain 2 and fatigue 2, completion 40 puts
  \<^verbatim>\<open>SIMPLIFY_WORKOUT_COMPLEXITY\<close> into the long-term recommendations, which are
  empty at completion 50.
\<close>

theorem low_completion_adds_recommendation:
  "long_term_recommendations (fst (assess_session_safety [] (feedback 2 2 40))) =
     [''SIMPLIFY_WORKOUT_COMPLEXITY''] \<and>
   long_term_recommendations (fst (assess_session_safety [] (feedback 2 2 50))) = []"
  by (simp add: assess_long_term feedback_def get_or_def)

text \<open>
  Claim C4, amended. For every session and every history: pain of 7 or more gives red
  with the action \<^verbatim>\<open>STOP_ALL_ACTIVITY_IMMEDIATELY\<close>; pain from 4 to 6 gives yellow
  unless fatigue forces red; fatigue of 8 or more gives red and appends
  \<^verbatim>\<open>REQUIRE_COMPLETE_REST_DAY\<close> as the last action, whatever the pain; a completion
  below 50 adds the risk tag \<^verbatim>\<open>LOW_COMPLETION_RATE\<close> and the long-term
  recommendation \<^verbatim>\<open>SIMPLIFY_WORKOUT_COMPLEXITY\<close>; and the safety level, the
  immediate actions and the clearance do not depend on the completion (nor on the
  history): they are the same for any other completion value \<open>c\<close> and history \<open>h'\<close>.
\<close>

theorem assess_session_safety_thresholds:
  fixes h h' :: "session_data list" and sd :: session_data and c :: "int option"
  defines "r \<equiv> fst (assess_session_safety h sd)"
    and "r' \<equiv> fst (assess_session_safety h' (sd \<lparr> completion_percentage := c \<rparr>))"
    and "pain \<equiv> get_or (pain_level sd) 0"
    and "fatigue \<equiv> get_or (fatigue_level sd) 0"
    and "completion \<equiv> get_or (completion_percentage sd) 100"
  shows "(7 \<le> pain \<longrightarrow> safety_level r = ''red'' \<and>
            ''STOP_ALL_ACTIVITY_IMMEDIATELY'' \<in> set (immediate_actions r)) \<and>
         (4 \<le> pain \<and> pain < 7 \<and> fatigue < 8 \<longrightarrow> safety_level r = ''yellow'') \<and>
         (8 \<le> fatigue \<longrightarrow> safety_level r = ''red'' \<and>
            last (immediate_actions r) = ''REQUIRE_COMPLETE_REST_DAY'') \<and>
         (completion < 50 \<longrightarrow>
            ''LOW_COMPLETION_RATE'' \<in> set (sr_risk_factors r) \<and>
            ''SIMPLIFY_WORKOUT_COMPLEXITY'' \<in> set (long_term_recommendations r)) \<and>
         safety_level r' = safety_level r \<and>
         immediate_actions r' = immediate_actions r \<and>
         clearance_for_next_session r' = clearance_for_next_session r"
  unfolding r_def r'_def pain_def fatigue_def completion_def
  by (simp add: assess_safety_level assess_immediate_actions assess_clearance
        assess_risk_factors assess_long_term)

theorem assess_session_safety_thresholds_witness:
  "safety_level (fst (assess_session_safety [] (feedback 8 3 60))) = ''red'' \<and>
   ''STOP_ALL_ACTIVITY_IMMEDIATELY'' \<in>
      set (immediate_actions (fst (assess_session_safety [] (feedback 8 3 60)))) \<and>
   safety_level (fst (assess_session_safety [] (feedback 5 2 80))) = ''yellow'' \<and>
   safety_level (fst (assess_session_safety [] (feedback 3 9 95))) = ''red'' \<and>
   last (immediate_actions (fst (assess_session_safety [] (feedback 3 9 95)))) =
      ''REQUIRE_COMPLETE_REST_DAY'' \<and>
   ''LOW_COMPLETION_RATE'' \<in>
      set (sr_risk_factors (fst (assess_session_safety [] (feedback 2 2 40)))) \<and>
   ''SIMPLIFY_WORKOUT_COMPLEXITY'' \<in>
      set (long_term_recommendations (fst (assess_session_safety [] (feedback 2 2 40)))) \<and>
   safety_level (fst (assess_session_safety [] (feedback 2 2 40))) = ''green''"
  using assess_session_safety_thresholds[of "feedback 8 3 60" "[]"]
    assess_session_safety_thresholds[of "feedback 5 2 80" "[]"]
    assess_session_safety_thresholds[of "feedback 3 9 95" "[]"]
    assess_session_safety_thresholds[of "feedback 2 2 40" "[]"]
  by (simp add: feedback_def get_or_def assess_safety_level)

section \<open>Safety monitor: the retained history\<close>

lemma tl_drop_1: "tl xs = drop 1 xs"
  by (cases xs) simp_all

text \<open>One call on a history of at most five sessions keeps the last five.\<close>

lemma assess_history_window:
  assumes "length h \<le> 5"
  shows "snd (assess_session_safety h sd) = drop (length (h @ [sd]) - 5) (h @ [sd])"
proof (cases "length h = 5")
  case True
  then have "length (h @ [sd]) - 5 = 1" by simp
  then show ?thesis using True by (simp only: assess_history tl_drop_1) simp
next
  case False
  with assms have "length (h @ [sd]) - 5 = 0" "\<not> 5 < length (h @ [sd])" by simp_all
  then show ?thesis by (simp only: assess_history) simp
qed

lemma drop_window_snoc:
  "drop (length (drop (length ss - 5) ss @ [x]) - 5) (drop (length ss - 5) ss @ [x]) =
   drop (length (ss @ [x]) - 5) (ss @ [x])"
proof (cases "length ss < 5")
  case True
  then show ?thesis by simp
next
  case False
  then have a: "drop (length ss - 5) ss @ [x] = drop (length ss - 5) (ss @ [x])"
    by simp
  have b: "length (drop (length ss - 5) (ss @ [x])) - 5 = 1"
    using False by simp
  have c: "1 + (length ss - 5) = length (ss @ [x]) - 5"
    using False by simp
  show ?thesis
    by (simp only: a b drop_drop c)
qed

lemma history_after_snoc:
  "history_after h (ss @ [sd]) = snd (assess_session_safety (history_after h ss) sd)"
  by (simp add: history_after_def)

lemma history_after_window: "history_after [] ss = drop (length ss - 5) ss"
proof (induction ss rule: rev_induct)
  case Nil
  show ?case by (simp add: history_after_def)
next
  case (snoc sd ss)
  have len: "length (history_after [] ss) \<le> 5"
    by (simp add: snoc.IH)
  have "history_after [] (ss @ [sd]) =
          drop (length (history_after [] ss @ [sd]) - 5) (history_after [] ss @ [sd])"
    by (simp only: history_after_snoc assess_history_window[OF len])
  also have "\<dots> = drop (length (ss @ [sd]) - 5) (ss @ [sd])"
    by (simp only: snoc.IH drop_window_snoc)
  finally show ?case .
qed

text \<open>The tracker's log grows by one row per recorded session and drops none.\<close>

lemma record_all_length:
  "record_all rows ss = Inr rows' \<Longrightarrow> length rows' = length rows + length ss"
proof (induction rows ss rule: record_all.induct)
  case (1 rows)
  then show ?case by simp
next
  case (2 rows sd rest)
  then show ?case
    by (auto simp: record_session_def split: sum.splits option.splits)
qed

text \<open>
  Claim C9. Starting from the monitor's empty history, after any sequence of calls to
  \<^const>\<open>assess_session_safety\<close> the retained history has at most 5 entries and is
  the last 5 of the assessed sessions, in arrival order. The tracker's log is a separate
  state: fed the same sessions, it holds one row for each of them.
\<close>

theorem session_history_window:
  "length (history_after [] sessions) \<le> 5 \<and>
   history_after [] sessions = drop (length sessions - 5) sessions \<and>
   (record_all [] sessions = Inr rows \<longrightarrow> length rows = length sessions)"
  using record_all_length[of "[]" sessions rows]
  by (simp add: history_after_window)

theorem session_history_window_witness:
  "length (history_after []
     [session 1 3 2 85, session 2 2 2 88, session 3 1 2 91,
      session 4 0 2 94, session 5 0 2 97, session 6 0 2 100]) \<le> 5 \<and>
   history_after []
     [session 1 3 2 85, session 2 2 2 88, session 3 1 2 91,
      session 4 0 2 94, session 5 0 2 97, session 6 0 2 100] =
     [session 2 2 2 88, session 3 1 2 91,
      session 4 0 2 94, session 5 0 2 97, session 6 0 2 100] \<and>
   (\<exists>rows. record_all []
     [session 1 3 2 85, session 2 2 2 88, session 3 1 2 91,
      session 4 0 2 94, session 5 0 2 97, session 6 0 2 100] = Inr rows \<and> length rows = 6)"
proof -
  let ?S = "[session 1 3 2 85, session 2 2 2 88, session 3 1 2 91,
      session 4 0 2 94, session 5 0 2 97, session 6 0 2 100]"
  obtain rows where r: "record_all [] ?S = Inr rows"
    by (simp add: record_session_def session_def feedback_def)
  from session_history_window[of ?S rows] r show ?thesis by simp
qed

section \<open>Safety monitor: guidelines\<close>

lemma guidelines_loop_unhandled:
  "list_all (\<lambda>(b, s). unhandled b) injuries \<Longrightarrow> guidelines_loop g injuries = g"
  by (induction g injuries rule: guidelines_loop.induct) (auto simp: unhandled_def)

lemma analyze_injury_impact_unhandled:
  "injuries \<noteq> [] \<Longrightarrow> list_all (\<lambda>(b, s). unhandled b) injuries \<Longrightarrow>
   analyze_injury_impact injuries = Inl KeyError"
  by (cases injuries)
     (auto simp: analyze_injury_impact_def injury_modifications_unhandled)

text \<open>
  Claim C10. For a profile whose body parts are all among neck, hips, upper back and
  right calf, \<^const>\<open>generate_safety_guidelines\<close> returns (it cannot raise) with empty
  daily precautions and warning signs; for every profile its emergency procedures are
  the same four strings; and the impact analysis of plan generation raises
  \<^verbatim>\<open>KeyError\<close> on every such profile that is not empty.
\<close>

theorem safety_guidelines_unhandled_parts:
  "(list_all (\<lambda>(b, s). unhandled b) injuries \<longrightarrow>
      daily_precautions (generate_safety_guidelines injuries) = [] \<and>
      warning_signs (generate_safety_guidelines injuries) = []) \<and>
   emergency_procedures (generate_safety_guidelines injuries) =
     [''Stop immediately if severe pain occurs'',
      ''Apply ice to injured area'',
      ''Contact healthcare provider if symptoms persist'',
      ''Rest completely until professional assessment''] \<and>
   (injuries \<noteq> [] \<and> list_all (\<lambda>(b, s). unhandled b) injuries \<longrightarrow>
      analyze_injury_impact injuries = Inl KeyError)"
  by (simp add: generate_safety_guidelines_def guidelines_loop_unhandled
        analyze_injury_impact_unhandled)

theorem safety_guidelines_unhandled_parts_witness:
  "list_all (\<lambda>(b, s). unhandled b) [(NECK, MILD), (HIPS, SEVERE)] \<and>
   daily_precautions (generate_safety_guidelines [(NECK, MILD), (HIPS, SEVERE)]) = [] \<and>
   warning_signs (generate_safety_guidelines [(NECK, MILD), (HIPS, SEVERE)]) = [] \<and>
   analyze_injury_impact [(NECK, MILD), (HIPS, SEVERE)] = Inl KeyError"
  using safety_guidelines_unhandled_parts[of "[(NECK, MILD), (HIPS, SEVERE)]"]
  by (simp add: unhandled_def)

section \<open>Progress analyzer\<close>

text \<open>
  Claim C8. On an empty log \<^const>\<open>analyze_trends\<close> returns the sentinel: the status
  is \<^verbatim>\<open>no_data\<close> and the recommendations are the one element
  \<^verbatim>\<open>continue_baseline\<close>, for every window size.
\<close>

theorem analyze_trends_empty_log:
  "status (analyze_trends [] window_size) = Some ''no_data'' \<and>
   recommendations (analyze_trends [] window_size) = [''continue_baseline'']"
  by (simp add: analyze_trends_def)

lemma mean_nonempty: "xs \<noteq> [] \<Longrightarrow> mean xs = Some (average xs)"
  by (simp add: mean_def average_def)

lemma generate_recommendations_fired:
  assumes "data \<noteq> []"
  shows "generate_recommendations data =
     (let fired = fired_rules (average (map row_pain_level data))
                    (average (map row_fatigue_level data))
                    (average (map row_completion_percentage data))
      in if fired = [] then [''continue_current_program''] else fired)"
  using assms
  by (simp add: generate_recommendations_def mean_nonempty gt_def lt_def fired_rules_def
        Let_def)

text \<open>Which tag stands for which rule, and when no rule fires.\<close>

lemma fired_rules_tags:
  "(''reduce_intensity_50_percent'' \<in> set (fired_rules p f c) \<longleftrightarrow> 6 < p) \<and>
   (''maintain_current_intensity'' \<in> set (fired_rules p f c) \<longleftrightarrow> 4 < p \<and> p \<le> 6) \<and>
   (''ensure_adequate_rest'' \<in> set (fired_rules p f c) \<longleftrightarrow> 6 < f) \<and>
   (''consider_moderate_progression'' \<in> set (fired_rules p f c) \<longleftrightarrow> 90 < c) \<and>
   (''simplify_exercises_temporarily'' \<in> set (fired_rules p f c) \<longleftrightarrow> c < 70) \<and>
   (fired_rules p f c = [] \<longleftrightarrow> p \<le> 4 \<and> f \<le> 6 \<and> 70 \<le> c \<and> c \<le> 90)"
  by (auto simp: fired_rules_def)

text \<open>
  Claim C7. On a log that is not empty, with a window that is not empty, the
  recommendations of \<^const>\<open>analyze_trends\<close> are the tags of the rules that fire on
  the means of pain, fatigue and completion over the window
  (\<^const>\<open>fired_rules\<close>: mean pain above 6 gives the three intensity, breathing and
  consult tags and then no maintain tag, otherwise mean pain above 4 gives the maintain
  tag; mean fatigue above 6 gives the three rest, frequency and recovery tags; mean
  completion above 90 gives the progression tag, below 70 the simplify tag); and when
  no rule fires, the single tag \<^verbatim>\<open>continue_current_program\<close>.
\<close>

theorem analyze_trends_recommendations:
  assumes "rows \<noteq> []" and "tail window_size rows \<noteq> []"
  shows "recommendations (analyze_trends rows window_size) =
     (let data = tail window_size rows;
          fired = fired_rules (average (map row_pain_level data))
                    (average (map row_fatigue_level data))
                    (average (map row_completion_percentage data))
      in if fired = [] then [''continue_current_program''] else fired)"
  using assms
  by (simp add: analyze_trends_def Let_def generate_recommendations_fired)

theorem analyze_trends_recommendations_witness:
  "\<exists>rows. record_all [] [session 1 7 2 95, session 2 8 2 95] = Inr rows \<and>
      rows \<noteq> [] \<and> tail 4 rows \<noteq> [] \<and>
      recommendations (analyze_trends rows 4) =
        [''reduce_intensity_50_percent'', ''focus_on_breathing_exercises'',
         ''consult_healthcare_provider_if_persistent'', ''consider_moderate_progression'']"
proof -
  obtain rows where r: "record_all [] [session 1 7 2 95, session 2 8 2 95] = Inr rows"
    by (simp add: record_session_def session_def feedback_def get_or_def)
  then have v: "map row_pain_level rows = [7, 8]" "map row_fatigue_level rows = [2, 2]"
      "map row_completion_percentage rows = [95, 95]" "length rows = 2"
    by (auto simp add: record_session_def session_def feedback_def get_or_def)
  then have ne: "rows \<noteq> []" by auto
  have t: "tail 4 rows = rows" using v(4) by (simp add: tail_def)
  from analyze_trends_recommendations[of rows 4] ne t v show ?thesis
    using r by (simp add: fired_rules_def average_def)
qed

section \<open>Program coordinator\<close>

lemma complete_session_step:
  assumes "complete_session s pain fatigue completion nt = Inr s'"
  shows "current_week s' = min 52 (current_week s + 1) \<and>
         current_phase s' = phase_of_week (current_week s') \<and>
         injury_profile s' = injury_profile s"
  using assms
  by (auto simp: complete_session_def Let_def split: if_splits sum.splits)

lemma complete_session_total:
  assumes "valid_feedback pain fatigue completion"
    and "list_all (\<lambda>(b, s). handled b) (injury_profile s)"
  shows "\<exists>s'. complete_session s pain fatigue completion nt = Inr s'"
proof -
  from plan_for_profile_total[OF assms(2)] obtain plan
    where "get_current_workout s = Inr plan"
    unfolding get_current_workout_def by blast
  with assms(1) show ?thesis
    by (simp add: complete_session_def Let_def record_session_def)
qed

lemma complete_sessions_week:
  assumes "list_all (\<lambda>(p, f, c, n). valid_feedback p f c) fbs"
    and "list_all (\<lambda>(b, s). handled b) (injury_profile s)"
    and "current_week s \<le> 52"
  shows "\<exists>s'. complete_sessions s fbs = Inr s' \<and>
           current_week s' = min 52 (current_week s + int (length fbs)) \<and>
           (fbs \<noteq> [] \<longrightarrow> current_phase s' = phase_of_week (current_week s'))"
  using assms
proof (induction s fbs rule: complete_sessions.induct)
  case (1 s)
  then show ?case by simp
next
  case (2 s pain fatigue completion nt rest)
  from 2(2) have v: "valid_feedback pain fatigue completion"
    and r: "list_all (\<lambda>(p, f, c, n). valid_feedback p f c) rest" by simp_all
  from complete_session_total[OF v 2(3)] obtain s1
    where s1: "complete_session s pain fatigue completion nt = Inr s1" by blast
  note st = complete_session_step[OF s1]
  have p1: "list_all (\<lambda>(b, s). handled b) (injury_profile s1)" using st 2(3) by simp
  have w1: "current_week s1 \<le> 52" using st by simp
  from 2(1)[OF s1 r p1 w1] obtain s' where
    s': "complete_sessions s1 rest = Inr s'"
      "current_week s' = min 52 (current_week s1 + int (length rest))"
      "rest \<noteq> [] \<longrightarrow> current_phase s' = phase_of_week (current_week s')" by blast
  have "complete_sessions s ((pain, fatigue, completion, nt) # rest) = Inr s'"
    using s1 s'(1) by simp
  moreover have "current_week s' =
      min 52 (current_week s + int (length ((pain, fatigue, completion, nt) # rest)))"
    using s'(2) st 2(4) by auto
  moreover have "current_phase s' = phase_of_week (current_week s')"
  proof (cases rest)
    case Nil
    with s'(1) have "s' = s1" by simp
    with st show ?thesis by simp
  next
    case (Cons a list)
    with s'(3) show ?thesis by simp
  qed
  ultimately show ?case by blast
qed

lemma phase_of_week_boundaries:
  "phase_of_week w =
     (if w \<le> 12 then FOUNDATION else if w \<le> 24 then BUILDING
      else if w \<le> 36 then INTEGRATION else MASTERY)"
  by (simp add: phase_of_week_def)

text \<open>
  Claim C6. The coordinator starts at week 1 in the foundation phase. A
  \<^const>\<open>complete_session\<close> call that returns leaves the week one higher, clamped at 52,
  and the phase that of the new week; it returns whenever the feedback is in range and
  the profile's body parts have knowledge-base entries. The phase of a week from 1 to
  52 is foundation for 1 to 12, building for 13 to 24, integration for 25 to 36 and
  mastery for 37 to 52. And 12 such calls from the initial state end in week 13, phase
  building.
\<close>

theorem coordinator_week_phase:
  "current_week (initialize profile) = 1 \<and>
   current_phase (initialize profile) = FOUNDATION \<and>
   (complete_session s pain fatigue completion nt = Inr s' \<longrightarrow>
      current_week s' = min 52 (current_week s + 1) \<and>
      current_phase s' = phase_of_week (current_week s')) \<and>
   (valid_feedback pain fatigue completion \<and>
    list_all (\<lambda>(b, sev). handled b) (injury_profile s) \<longrightarrow>
      (\<exists>s'. complete_session s pain fatigue completion nt = Inr s')) \<and>
   (1 \<le> w \<and> w \<le> 52 \<longrightarrow>
      (phase_of_week w = FOUNDATION \<longleftrightarrow> w \<in> {1..12}) \<and>
      (phase_of_week w = BUILDING \<longleftrightarrow> w \<in> {13..24}) \<and>
      (phase_of_week w = INTEGRATION \<longleftrightarrow> w \<in> {25..36}) \<and>
      (phase_of_week w = MASTERY \<longleftrightarrow> w \<in> {37..52})) \<and>
   (length fbs = 12 \<and> list_all (\<lambda>(p, f, c, n). valid_feedback p f c) fbs \<and>
    list_all (\<lambda>(b, sev). handled b) profile \<longrightarrow>
      (\<exists>s12. complete_sessions (initialize profile) fbs = Inr s12 \<and>
             current_week s12 = 13 \<and> current_phase s12 = BUILDING))"
proof (intro conjI impI)
  show "current_week (initialize profile) = 1"
    "current_phase (initialize profile) = FOUNDATION"
    by (simp_all add: initialize_def)
next
  assume "complete_session s pain fatigue completion nt = Inr s'"
  from complete_session_step[OF this]
  show "current_week s' = min 52 (current_week s + 1)"
    "current_phase s' = phase_of_week (current_week s')" by simp_all
next
  assume "valid_feedback pain fatigue completion \<and>
    list_all (\<lambda>(b, sev). handled b) (injury_profile s)"
  then show "\<exists>s'. complete_session s pain fatigue completion nt = Inr s'"
    using complete_session_total by blast
next
  assume "1 \<le> w \<and> w \<le> 52"
  then show "phase_of_week w = FOUNDATION \<longleftrightarrow> w \<in> {1..12}"
    "phase_of_week w = BUILDING \<longleftrightarrow> w \<in> {13..24}"
    "phase_of_week w = INTEGRATION \<longleftrightarrow> w \<in> {25..36}"
    "phase_of_week w = MASTERY \<longleftrightarrow> w \<in> {37..52}"
    by (auto simp: phase_of_week_boundaries)
next
  assume a: "length fbs = 12 \<and> list_all (\<lambda>(p, f, c, n). valid_feedback p f c) fbs \<and>
    list_all (\<lambda>(b, sev). handled b) profile"
  then have "fbs \<noteq> []" by auto
  moreover from a
  have "list_all (\<lambda>(b, s). handled b) (injury_profile (initialize profile))"
    "current_week (initialize profile) \<le> 52"
    by (simp_all add: initialize_def)
  ultimately obtain s12 where "complete_sessions (initialize profile) fbs = Inr s12"
      "current_week s12 = min 52 (current_week (initialize profile) + int (length fbs))"
      "current_phase s12 = phase_of_week (current_week s12)"
    using complete_sessions_week[of fbs "initialize profile"] a by blast
  then show "\<exists>s12. complete_sessions (initialize profile) fbs = Inr s12 \<and>
             current_week s12 = 13 \<and> current_phase s12 = BUILDING"
    using a by (auto simp: initialize_def phase_of_week_boundaries)
qed

theorem coordinator_week_phase_witness:
  "(\<exists>s'. complete_session
           (initialize [(LEFT_SHOULDER, MODERATE), (RIGHT_SHOULDER, MILD),
                        (LEFT_CALF, MODERATE), (LOWER_BACK, MILD)]) 2 2 90 None = Inr s' \<and>
         current_week s' = 2 \<and> current_phase s' = FOUNDATION) \<and>
   phase_of_week 13 = BUILDING \<and>
   (\<exists>s12. complete_sessions
            (initialize [(LEFT_SHOULDER, MODERATE), (RIGHT_SHOULDER, MILD),
                         (LEFT_CALF, MODERATE), (LOWER_BACK, MILD)])
            (replicate 12 (2, 2, 90, None)) = Inr s12 \<and>
          current_week s12 = 13 \<and> current_phase s12 = BUILDING)"
proof -
  let ?P = "[(LEFT_SHOULDER, MODERATE), (RIGHT_SHOULDER, MILD),
             (LEFT_CALF, MODERATE), (LOWER_BACK, MILD)]"
  let ?fbs = "replicate 12 (2::int, 2::int, 90::int, None :: string option)"
  have v: "valid_feedback 2 2 90" by (simp add: valid_feedback_def)
  have p: "list_all (\<lambda>(b, sev). handled b) ?P" by (simp add: handled_def)
  have p': "list_all (\<lambda>(b, sev). handled b) (injury_profile (initialize ?P))"
    using p by (simp add: initialize_def)
  have f: "length ?fbs = 12 \<and> list_all (\<lambda>(p, f, c, n). valid_feedback p f c) ?fbs"
    using v by (simp add: list_all_length)
  note t = coordinator_week_phase[of ?P "initialize ?P" 2 2 90 None _ 13 ?fbs]
  from t v p' obtain s' where s': "complete_session (initialize ?P) 2 2 90 None = Inr s'"
    by blast
  from coordinator_week_phase[of ?P "initialize ?P" 2 2 90 None s' 13 ?fbs] s'
  have "current_week s' = 2 \<and> current_phase s' = FOUNDATION"
    by (simp add: phase_of_week_def)
  with s' have a: "\<exists>s'. complete_session (initialize ?P) 2 2 90 None = Inr s' \<and>
         current_week s' = 2 \<and> current_phase s' = FOUNDATION" by blast
  from t have b: "phase_of_week 13 = BUILDING" by simp
  from t f p have c: "\<exists>s12. complete_sessions (initialize ?P) ?fbs = Inr s12 \<and>
          current_week s12 = 13 \<and> current_phase s12 = BUILDING" by blast
  from a b c show ?thesis by blast
qed

end
